theory Spec2Isabelle
  imports Complex_Main "HOL-Library.Log_Nat"
begin

section \<open>Data model\<close>

text \<open>
  A transaction is the object read from \<^verbatim>\<open>transactions.json\<close>: seven string-valued
  properties. The amount is kept as the string it is stored as; every method that does
  arithmetic converts it at the point of use, as the source does.
\<close>

record transaction =
  transaction_id :: string
  transaction_date :: string
  transaction_amount :: string
  transaction_type :: string
  transaction_description :: string
  merchant_name :: string
  card_type :: string

text \<open>The class \<^verbatim>\<open>TransactionAnalyzer\<close> has one field, the array of transactions.\<close>

record analyzer =
  transactions :: "transaction list"

text \<open>
  A JavaScript Number: not-a-number, the two infinities, or a finite value. A finite
  double is a rational, so \<open>Fin\<close> carries one. The sign of a zero is not tracked
  (\<^verbatim>\<open>-0 === 0\<close> holds in the language).
\<close>

datatype jsnum = NaN | PosInf | NegInf | Fin rat

datatype error = TypeError

text \<open>
  What the class takes from the language runtime rather than from its own code:
  \<^item> \<open>roundNum\<close>: the Number nearest to an exact result (how \<^verbatim>\<open>+\<close> and \<^verbatim>\<open>/\<close>
    round);
  \<^item> \<open>parseFloat\<close>: the global function of that name, on a string;
  \<^item> \<open>toNumber\<close>: the conversion a relational operator applies to a string operand
    whose other operand is a number;
  \<^item> \<open>parseDate\<close>: the time value of \<^verbatim>\<open>new Date(s)\<close> in milliseconds, \<open>None\<close>
    for an Invalid Date (whose time value is NaN);
  \<^item> \<open>getFullYear\<close>, \<open>getMonth\<close>, \<open>getDate\<close>: the local-time fields of a valid time
    value (\<open>getMonth\<close> counts from 0);
  \<^item> \<open>monthYearLabel\<close>: \<^verbatim>\<open>toLocaleString('default', {month: 'long', year: 'numeric'})\<close>,
    which depends on the locale and the time zone of the host; on an Invalid Date it
    is the string \<^verbatim>\<open>Invalid Date\<close>.
\<close>

record platform =
  roundNum :: "rat \<Rightarrow> jsnum"
  parseFloat :: "string \<Rightarrow> jsnum"
  toNumber :: "string \<Rightarrow> jsnum"
  parseDate :: "string \<Rightarrow> int option"
  getFullYear :: "int \<Rightarrow> int"
  getMonth :: "int \<Rightarrow> int"
  getDate :: "int \<Rightarrow> int"
  monthYearLabel :: "int option \<Rightarrow> string"

section \<open>Operators of the language\<close>

subsection \<open>Numbers\<close>

text \<open>\<^verbatim>\<open>a + b\<close> on Numbers: NaN is absorbing, opposite infinities give NaN.\<close>

fun num_add :: "(rat \<Rightarrow> jsnum) \<Rightarrow> jsnum \<Rightarrow> jsnum \<Rightarrow> jsnum" where
  "num_add r (Fin x) (Fin y) = r (x + y)"
| "num_add r NaN b = NaN"
| "num_add r a NaN = NaN"
| "num_add r PosInf NegInf = NaN"
| "num_add r NegInf PosInf = NaN"
| "num_add r PosInf b = PosInf"
| "num_add r NegInf b = NegInf"
| "num_add r a PosInf = PosInf"
| "num_add r a NegInf = NegInf"

text \<open>
  \<^verbatim>\<open>a / b\<close> on Numbers whose divisor is not negative (the only divisor of the class is
  an array length): \<^verbatim>\<open>0 / 0\<close> is NaN, any other finite value over zero is an
  infinity of the sign of the dividend.
\<close>

fun num_div :: "(rat \<Rightarrow> jsnum) \<Rightarrow> jsnum \<Rightarrow> jsnum \<Rightarrow> jsnum" where
  "num_div r (Fin x) (Fin y) =
     (if y = 0 then (if x = 0 then NaN else if 0 < x then PosInf else NegInf)
      else r (x / y))"
| "num_div r NaN b = NaN"
| "num_div r a NaN = NaN"
| "num_div r PosInf PosInf = NaN"
| "num_div r PosInf NegInf = NaN"
| "num_div r NegInf PosInf = NaN"
| "num_div r NegInf NegInf = NaN"
| "num_div r PosInf (Fin y) = (if y < 0 then NegInf else PosInf)"
| "num_div r NegInf (Fin y) = (if y < 0 then PosInf else NegInf)"
| "num_div r (Fin x) PosInf = Fin 0"
| "num_div r (Fin x) NegInf = Fin 0"

text \<open>\<^verbatim>\<open>a <= b\<close> on Numbers: false as soon as an operand is NaN.\<close>

fun num_le :: "jsnum \<Rightarrow> jsnum \<Rightarrow> bool" where
  "num_le NaN b = False"
| "num_le a NaN = False"
| "num_le NegInf b = True"
| "num_le a PosInf = True"
| "num_le PosInf b = False"
| "num_le a NegInf = False"
| "num_le (Fin x) (Fin y) = (x \<le> y)"

definition num_ge :: "jsnum \<Rightarrow> jsnum \<Rightarrow> bool" where
  "num_ge a b = num_le b a"

subsection \<open>Dates\<close>

text \<open>
  A relational operator on two Date objects compares their time values as Numbers; an
  Invalid Date has the time value NaN, and every comparison with NaN is false.
\<close>

fun date_le :: "int option \<Rightarrow> int option \<Rightarrow> bool" where
  "date_le (Some x) (Some y) = (x \<le> y)"
| "date_le a b = False"

fun date_lt :: "int option \<Rightarrow> int option \<Rightarrow> bool" where
  "date_lt (Some x) (Some y) = (x < y)"
| "date_lt a b = False"

definition date_ge :: "int option \<Rightarrow> int option \<Rightarrow> bool" where
  "date_ge a b = date_le b a"

text \<open>
  A field getter of a Date: NaN (\<open>None\<close>) on an Invalid Date. \<^verbatim>\<open>NaN + 1\<close> is NaN.
\<close>

definition dateField :: "(int \<Rightarrow> int) \<Rightarrow> int option \<Rightarrow> int option" where
  "dateField getter d = map_option getter d"

definition plusOne :: "int option \<Rightarrow> int option" where
  "plusOne v = map_option (\<lambda>n. n + 1) v"

text \<open>
  An optional integer argument: \<open>None\<close> when the caller passes nothing (or null).
  \<^verbatim>\<open>!x\<close> is true of a missing argument and of 0.
\<close>

definition falsy :: "int option \<Rightarrow> bool" where
  "falsy x = (case x of None \<Rightarrow> True | Some n \<Rightarrow> n = 0)"

text \<open>
  \<^verbatim>\<open>v === x\<close> between a field of a Date (a Number, NaN as \<open>None\<close>) and an optional
  integer argument: NaN equals nothing, and a Number never equals a missing argument.
\<close>

fun strictEq :: "int option \<Rightarrow> int option \<Rightarrow> bool" where
  "strictEq (Some v) (Some x) = (v = x)"
| "strictEq v x = False"

subsection \<open>Objects used as counters\<close>

text \<open>
  The reducers of the class count in a fresh object \<^verbatim>\<open>{}\<close>. Its own properties are
  kept in the order they were created, which is the order \<^verbatim>\<open>Object.keys\<close>
  enumerates string keys that are not array indices. Reading a property that was never
  written gives \<^verbatim>\<open>undefined\<close> (\<open>None\<close>). A month label (a month name and a year)
  and the two type names \<^verbatim>\<open>debit\<close> and \<^verbatim>\<open>credit\<close> are neither array indices nor
  names that \<^verbatim>\<open>{}\<close> inherits from its prototype. \<^verbatim>\<open>mostTransactionTypes\<close> also
  writes under every other type string of the store, but reads only the entries of
  \<^verbatim>\<open>debit\<close> and \<^verbatim>\<open>credit\<close>, which no other key touches.
\<close>

type_synonym counter = "(string \<times> nat) list"

definition getProp :: "counter \<Rightarrow> string \<Rightarrow> nat option" where
  "getProp obj k = map_of obj k"

fun setProp :: "string \<Rightarrow> nat \<Rightarrow> counter \<Rightarrow> counter" where
  "setProp k v [] = [(k, v)]"
| "setProp k v ((k', w) # rest) =
     (if k' = k then (k', v) # rest else (k', w) # setProp k v rest)"

definition objectKeys :: "counter \<Rightarrow> string list" where
  "objectKeys obj = map fst obj"

text \<open>\<^verbatim>\<open>v || 0\<close> on a count: 0 for \<^verbatim>\<open>undefined\<close> and for 0.\<close>

definition orZero :: "nat option \<Rightarrow> nat" where
  "orZero v = (case v of None \<Rightarrow> 0 | Some n \<Rightarrow> n)"

text \<open>\<^verbatim>\<open>acc[k] = (acc[k] || 0) + 1; return acc\<close>\<close>

definition tally :: "counter \<Rightarrow> string \<Rightarrow> counter" where
  "tally acc k = setProp k (orZero (getProp acc k) + 1) acc"

text \<open>
  \<^verbatim>\<open>x > y\<close> on two counts read from the object: \<^verbatim>\<open>undefined\<close> converts to NaN, so
  the comparison is false as soon as one side was never written.
\<close>

fun count_gt :: "nat option \<Rightarrow> nat option \<Rightarrow> bool" where
  "count_gt (Some x) (Some y) = (y < x)"
| "count_gt a b = False"

subsection \<open>Array methods\<close>

text \<open>
  \<^verbatim>\<open>reduce\<close> with an initial value is \<open>foldl\<close>. Without one it starts from the first
  element, and throws a TypeError on an empty array.
\<close>

fun reduce1 :: "('a \<Rightarrow> 'a \<Rightarrow> 'a) \<Rightarrow> 'a list \<Rightarrow> error + 'a" where
  "reduce1 f [] = Inl TypeError"
| "reduce1 f (x # xs) = Inr (foldl f x xs)"

text \<open>\<^verbatim>\<open>Array.from(new Set(xs))\<close>: the distinct values in the order first seen.\<close>

definition setAdd :: "'a list \<Rightarrow> 'a \<Rightarrow> 'a list" where
  "setAdd seen x = (if x \<in> set seen then seen else seen @ [x])"

definition arrayFromSet :: "'a list \<Rightarrow> 'a list" where
  "arrayFromSet xs = foldl setAdd [] xs"

section \<open>The methods of TransactionAnalyzer\<close>

definition addTransaction :: "analyzer \<Rightarrow> transaction \<Rightarrow> analyzer" where
  "addTransaction a t = a\<lparr>transactions := transactions a @ [t]\<rparr>"

definition getAllTransaction :: "analyzer \<Rightarrow> transaction list" where
  "getAllTransaction a = transactions a"

definition getUniqueTransactionType :: "analyzer \<Rightarrow> string list" where
  "getUniqueTransactionType a = arrayFromSet (map transaction_type (transactions a))"

text \<open>The reducer \<^verbatim>\<open>(total, t) => total + parseFloat(t.transaction_amount)\<close>.\<close>

definition addAmount :: "platform \<Rightarrow> jsnum \<Rightarrow> transaction \<Rightarrow> jsnum" where
  "addAmount pf acc t = num_add (roundNum pf) acc (parseFloat pf (transaction_amount t))"

definition calculateTotalAmount :: "platform \<Rightarrow> analyzer \<Rightarrow> jsnum" where
  "calculateTotalAmount pf a = foldl (addAmount pf) (Fin 0) (transactions a)"

definition calculateTotalAmountByDate ::
  "platform \<Rightarrow> analyzer \<Rightarrow> int option \<Rightarrow> int option \<Rightarrow> int option \<Rightarrow> jsnum" where
  "calculateTotalAmountByDate pf a year month day =
     foldl (addAmount pf) (Fin 0)
       (filter (\<lambda>t. let date = parseDate pf (transaction_date t) in
                  (falsy year \<or> strictEq (dateField (getFullYear pf) date) year) \<and>
                  (falsy month \<or> strictEq (plusOne (dateField (getMonth pf) date)) month) \<and>
                  (falsy day \<or> strictEq (dateField (getDate pf) date) day))
          (transactions a))"

definition getTransactionByType :: "analyzer \<Rightarrow> string \<Rightarrow> transaction list" where
  "getTransactionByType a type = filter (\<lambda>t. transaction_type t = type) (transactions a)"

definition getTransactionsInDateRange ::
  "platform \<Rightarrow> analyzer \<Rightarrow> string \<Rightarrow> string \<Rightarrow> transaction list" where
  "getTransactionsInDateRange pf a startDate endDate =
     (let start = parseDate pf startDate; finish = parseDate pf endDate in
      filter (\<lambda>t. let date = parseDate pf (transaction_date t) in
                date_ge date start \<and> date_le date finish)
        (transactions a))"

definition getTransactionsByMerchant :: "analyzer \<Rightarrow> string \<Rightarrow> transaction list" where
  "getTransactionsByMerchant a merchantName =
     filter (\<lambda>t. merchant_name t = merchantName) (transactions a)"

definition calculateAverageTransactionAmount :: "platform \<Rightarrow> analyzer \<Rightarrow> jsnum" where
  "calculateAverageTransactionAmount pf a =
     (let sumAll = calculateTotalAmount pf a in
      num_div (roundNum pf) sumAll (Fin (of_nat (length (transactions a)))))"

definition getTransactionsByAmountRange ::
  "platform \<Rightarrow> analyzer \<Rightarrow> jsnum \<Rightarrow> jsnum \<Rightarrow> transaction list" where
  "getTransactionsByAmountRange pf a minAmount maxAmount =
     filter (\<lambda>t. num_ge (toNumber pf (transaction_amount t)) minAmount \<and>
                num_le (toNumber pf (transaction_amount t)) maxAmount)
       (transactions a)"

definition calculateTotalDebitAmount :: "platform \<Rightarrow> analyzer \<Rightarrow> jsnum" where
  "calculateTotalDebitAmount pf a =
     foldl (addAmount pf) (Fin 0) (getTransactionByType a ''debit'')"

text \<open>The reducer that counts a transaction under the label of its month.\<close>

definition tallyMonth :: "platform \<Rightarrow> counter \<Rightarrow> transaction \<Rightarrow> counter" where
  "tallyMonth pf acc t =
     (let month = monthYearLabel pf (parseDate pf (transaction_date t)) in tally acc month)"

text \<open>The reducer \<^verbatim>\<open>(a, b) => count[a] > count[b] ? a : b\<close>.\<close>

definition pickKey :: "counter \<Rightarrow> string \<Rightarrow> string \<Rightarrow> string" where
  "pickKey count a b = (if count_gt (getProp count a) (getProp count b) then a else b)"

definition findMostTransactionsMonth :: "platform \<Rightarrow> analyzer \<Rightarrow> error + string" where
  "findMostTransactionsMonth pf a =
     (let count = foldl (tallyMonth pf) [] (transactions a) in
      reduce1 (pickKey count) (objectKeys count))"

definition findMostDebitTransactionMonth :: "platform \<Rightarrow> analyzer \<Rightarrow> error + string" where
  "findMostDebitTransactionMonth pf a =
     (let count = foldl (tallyMonth pf) [] (getTransactionByType a ''debit'') in
      reduce1 (pickKey count) (objectKeys count))"

definition mostTransactionTypes :: "analyzer \<Rightarrow> string" where
  "mostTransactionTypes a =
     (let count = foldl (\<lambda>acc t. tally acc (transaction_type t)) [] (transactions a) in
      if count_gt (getProp count ''debit'') (getProp count ''credit'') then ''debit''
      else if count_gt (getProp count ''credit'') (getProp count ''debit'') then ''credit''
      else ''equal'')"

definition getTransactionsBeforeDate :: "platform \<Rightarrow> analyzer \<Rightarrow> string \<Rightarrow> transaction list" where
  "getTransactionsBeforeDate pf a date =
     (let finish = parseDate pf date in
      filter (\<lambda>t. date_lt (parseDate pf (transaction_date t)) finish) (transactions a))"

text \<open>
  \<^verbatim>\<open>find(...) || null\<close>: a stored transaction is an object, hence truthy, so the
  result is the transaction found, or null (\<open>None\<close>) when \<^verbatim>\<open>find\<close> gives
  \<^verbatim>\<open>undefined\<close>.
\<close>

definition findTransactionById :: "analyzer \<Rightarrow> string \<Rightarrow> transaction option" where
  "findTransactionById a ident = find (\<lambda>t. transaction_id t = ident) (transactions a)"

definition mapTransactionDescriptions :: "analyzer \<Rightarrow> string list" where
  "mapTransactionDescriptions a = map transaction_description (transactions a)"

section \<open>Calls on an analyzer\<close>

text \<open>
  A call of a method gives a result and leaves an analyzer behind. Only
  \<^verbatim>\<open>addTransaction\<close> writes to \<^verbatim>\<open>this.transactions\<close> (\<^verbatim>\<open>push\<close>); every other method
  reads it through \<^verbatim>\<open>filter\<close>, \<^verbatim>\<open>map\<close>, \<^verbatim>\<open>reduce\<close>, \<^verbatim>\<open>find\<close> or \<^verbatim>\<open>length\<close>, none
  of which changes the array.
\<close>

datatype operation =
    AddTransaction transaction
  | GetAllTransaction
  | GetUniqueTransactionType
  | CalculateTotalAmount
  | CalculateTotalAmountByDate "int option" "int option" "int option"
  | GetTransactionByType string
  | GetTransactionsInDateRange string string
  | GetTransactionsByMerchant string
  | CalculateAverageTransactionAmount
  | GetTransactionsByAmountRange jsnum jsnum
  | CalculateTotalDebitAmount
  | FindMostTransactionsMonth
  | FindMostDebitTransactionMonth
  | MostTransactionTypes
  | GetTransactionsBeforeDate string
  | FindTransactionById string
  | MapTransactionDescriptions

datatype outcome =
    Void
  | Records "transaction list"
  | Strings "string list"
  | Number jsnum
  | Text string
  | Found "transaction option"
  | Thrown error

definition textOrThrown :: "error + string \<Rightarrow> outcome" where
  "textOrThrown r = (case r of Inl e \<Rightarrow> Thrown e | Inr s \<Rightarrow> Text s)"

fun call :: "platform \<Rightarrow> operation \<Rightarrow> analyzer \<Rightarrow> outcome \<times> analyzer" where
  "call pf (AddTransaction t) a = (Void, addTransaction a t)"
| "call pf GetAllTransaction a = (Records (getAllTransaction a), a)"
| "call pf GetUniqueTransactionType a = (Strings (getUniqueTransactionType a), a)"
| "call pf CalculateTotalAmount a = (Number (calculateTotalAmount pf a), a)"
| "call pf (CalculateTotalAmountByDate y m d) a =
     (Number (calculateTotalAmountByDate pf a y m d), a)"
| "call pf (GetTransactionByType ty) a = (Records (getTransactionByType a ty), a)"
| "call pf (GetTransactionsInDateRange s e) a =
     (Records (getTransactionsInDateRange pf a s e), a)"
| "call pf (GetTransactionsByMerchant m) a = (Records (getTransactionsByMerchant a m), a)"
| "call pf CalculateAverageTransactionAmount a =
     (Number (calculateAverageTransactionAmount pf a), a)"
| "call pf (GetTransactionsByAmountRange lo hi) a =
     (Records (getTransactionsByAmountRange pf a lo hi), a)"
| "call pf CalculateTotalDebitAmount a = (Number (calculateTotalDebitAmount pf a), a)"
| "call pf FindMostTransactionsMonth a = (textOrThrown (findMostTransactionsMonth pf a), a)"
| "call pf FindMostDebitTransactionMonth a =
     (textOrThrown (findMostDebitTransactionMonth pf a), a)"
| "call pf MostTransactionTypes a = (Text (mostTransactionTypes a), a)"
| "call pf (GetTransactionsBeforeDate d) a = (Records (getTransactionsBeforeDate pf a d), a)"
| "call pf (FindTransactionById i) a = (Found (findTransactionById a i), a)"
| "call pf MapTransactionDescriptions a = (Strings (mapTransactionDescriptions a), a)"

fun isAdd :: "operation \<Rightarrow> bool" where
  "isAdd (AddTransaction t) = True"
| "isAdd other = False"

section \<open>A reference platform\<close>

text \<open>
  One concrete host for the examples: Numbers are IEEE 754 doubles, the locale is
  en-US and the time zone is UTC. Its date parser reads the date-only form
  \<^verbatim>\<open>YYYY-MM-DD\<close> of a day of the calendar and takes every other string as an
  Invalid Date (engines read more forms than that); its numeric strings are the
  decimal literals and \<^verbatim>\<open>Infinity\<close>, between ASCII white space (literals with a
  radix prefix are not read). The examples stay within these forms.
\<close>

subsection \<open>Rounding to a double\<close>

text \<open>
  To nearest, ties to even, on a significand of 53 bits: \<open>binExp\<close> is the binary
  exponent of a positive rational, \<open>q\<close> the spacing of the doubles around it and
  \<open>m\<close> the rounded significand. The exponent does not go below that of the subnormal
  numbers, and a result of magnitude \<open>2 ^ 1024\<close> or more is an infinity.
\<close>

definition roundHalfEven :: "rat \<Rightarrow> int" where
  "roundHalfEven x =
     (let f = \<lfloor>x\<rfloor>; r = x - of_int f in
      if r < 1 / 2 then f else if 1 / 2 < r then f + 1 else if even f then f else f + 1)"

definition binExp :: "rat \<Rightarrow> int" where
  "binExp x = (if 1 \<le> x then bitlen \<lfloor>x\<rfloor> - 1 else - bitlen (\<lceil>1 / x\<rceil> - 1))"

definition roundDouble :: "rat \<Rightarrow> jsnum" where
  "roundDouble x =
     (if x = 0 then Fin 0
      else let e = max (binExp \<bar>x\<bar>) (- 1022);
               q = 2 powi (e - 52);
               m = roundHalfEven (\<bar>x\<bar> / q)
           in if 1023 < e \<or> (e = 1023 \<and> 2 ^ 53 \<le> m) then (if 0 < x then PosInf else NegInf)
              else Fin (if 0 < x then of_int m * q else - (of_int m * q)))"

subsection \<open>Numeric strings\<close>

definition isDigit :: "char \<Rightarrow> bool" where
  "isDigit c = (48 \<le> (of_char c :: nat) \<and> (of_char c :: nat) \<le> 57)"

definition isWhite :: "char \<Rightarrow> bool" where
  "isWhite c = ((of_char c :: nat) \<in> {9, 10, 11, 12, 13, 32})"

definition digitsValue :: "string \<Rightarrow> nat" where
  "digitsValue ds = foldl (\<lambda>n c. 10 * n + (of_char c - 48)) 0 ds"

definition signOf :: "string \<Rightarrow> int \<times> string" where
  "signOf s = (case s of
      c # rest \<Rightarrow> if c = CHR ''-'' then (- 1, rest) else if c = CHR ''+'' then (1, rest) else (1, s)
    | [] \<Rightarrow> (1, s))"

definition exponentPart :: "string \<Rightarrow> int \<times> string" where
  "exponentPart s = (case s of
      c # rest \<Rightarrow>
        if c = CHR ''e'' \<or> c = CHR ''E'' then
          (let (sg, r) = signOf rest; ds = takeWhile isDigit r in
           if ds = [] then (0, s) else (sg * int (digitsValue ds), dropWhile isDigit r))
        else (0, s)
    | [] \<Rightarrow> (0, s))"

text \<open>The longest decimal literal at the head of a string, and what follows it.\<close>

definition decimalPrefix :: "string \<Rightarrow> (jsnum \<times> string) option" where
  "decimalPrefix s =
     (let (sg, s1) = signOf s in
      if take 8 s1 = ''Infinity'' then Some (if sg < 0 then NegInf else PosInf, drop 8 s1)
      else
        let ip = takeWhile isDigit s1; r1 = dropWhile isDigit s1;
            fp = (case r1 of c # r \<Rightarrow> if c = CHR ''.'' then takeWhile isDigit r else [] | [] \<Rightarrow> []);
            r2 = (case r1 of c # r \<Rightarrow> if c = CHR ''.'' then dropWhile isDigit r else r1 | [] \<Rightarrow> r1)
        in if ip = [] \<and> fp = [] then None
           else let (ex, r3) = exponentPart r2 in
             Some (roundDouble (of_int sg * of_nat (digitsValue (ip @ fp)) * 10 powi (ex - int (length fp))), r3))"

definition refParseFloat :: "string \<Rightarrow> jsnum" where
  "refParseFloat s = (case decimalPrefix (dropWhile isWhite s) of None \<Rightarrow> NaN | Some (v, r) \<Rightarrow> v)"

definition refToNumber :: "string \<Rightarrow> jsnum" where
  "refToNumber s =
     (let t = rev (dropWhile isWhite (rev (dropWhile isWhite s))) in
      if t = [] then Fin 0
      else case decimalPrefix t of None \<Rightarrow> NaN | Some (v, r) \<Rightarrow> if r = [] then v else NaN)"

subsection \<open>Calendar\<close>

text \<open>Days since 1 January 1970 of a day of the proleptic Gregorian calendar, and back.\<close>

definition daysFromCivil :: "int \<Rightarrow> int \<Rightarrow> int \<Rightarrow> int" where
  "daysFromCivil y m d =
     (let y' = (if m \<le> 2 then y - 1 else y);
          era = y' div 400;
          yoe = y' - era * 400;
          mp = (m + 9) mod 12;
          doy = (153 * mp + 2) div 5 + d - 1;
          doe = yoe * 365 + yoe div 4 - yoe div 100 + doy
      in era * 146097 + doe - 719468)"

definition civilFromDays :: "int \<Rightarrow> int \<times> int \<times> int" where
  "civilFromDays z0 =
     (let z = z0 + 719468;
          era = z div 146097;
          doe = z - era * 146097;
          yoe = (doe - doe div 1460 + doe div 36524 - doe div 146096) div 365;
          doy = doe - (365 * yoe + yoe div 4 - yoe div 100);
          mp = (5 * doy + 2) div 153;
          d = doy - (153 * mp + 2) div 5 + 1;
          m = (if mp < 10 then mp + 3 else mp - 9);
          y = yoe + era * 400
      in (if m \<le> 2 then y + 1 else y, m, d))"

definition msPerDay :: int where
  "msPerDay = 86400000"

definition refParseDate :: "string \<Rightarrow> int option" where
  "refParseDate s =
     (if length s = 10 \<and> s ! 4 = CHR ''-'' \<and> s ! 7 = CHR ''-'' \<and>
         list_all isDigit (take 4 s @ take 2 (drop 5 s) @ drop 8 s) then
        (let y = int (digitsValue (take 4 s));
             m = int (digitsValue (take 2 (drop 5 s)));
             d = int (digitsValue (drop 8 s))
         in if civilFromDays (daysFromCivil y m d) = (y, m, d)
            then Some (daysFromCivil y m d * msPerDay) else None)
      else None)"

definition refFullYear :: "int \<Rightarrow> int" where
  "refFullYear tv = fst (civilFromDays (tv div msPerDay))"

definition refMonth :: "int \<Rightarrow> int" where
  "refMonth tv = fst (snd (civilFromDays (tv div msPerDay))) - 1"

definition refDate :: "int \<Rightarrow> int" where
  "refDate tv = snd (snd (civilFromDays (tv div msPerDay)))"

definition monthNames :: "string list" where
  "monthNames = [''January'', ''February'', ''March'', ''April'', ''May'', ''June'', ''July'',
     ''August'', ''September'', ''October'', ''November'', ''December'']"

fun decimal :: "nat \<Rightarrow> string" where
  "decimal n = (if n < 10 then [char_of (48 + n)] else decimal (n div 10) @ [char_of (48 + n mod 10)])"

definition refMonthYearLabel :: "int option \<Rightarrow> string" where
  "refMonthYearLabel d = (case d of
      None \<Rightarrow> ''Invalid Date''
    | Some tv \<Rightarrow> monthNames ! nat (refMonth tv) @ '' '' @ decimal (nat (refFullYear tv)))"

definition refPlatform :: platform where
  "refPlatform = \<lparr>roundNum = roundDouble, parseFloat = refParseFloat, toNumber = refToNumber,
     parseDate = refParseDate, getFullYear = refFullYear, getMonth = refMonth,
     getDate = refDate, monthYearLabel = refMonthYearLabel\<rparr>"

text \<open>
  The same host five hours west of Greenwich (UTC-05:00, no daylight saving time): a
  local field of a time value is the UTC field of the instant five hours earlier.
  Parsing is as before; a date-only string is read as midnight UTC on every host.
\<close>

definition westOffset :: int where
  "westOffset = 5 * 3600000"

definition westPlatform :: platform where
  "westPlatform = refPlatform
     \<lparr>getFullYear := \<lambda>tv. refFullYear (tv - westOffset),
      getMonth := \<lambda>tv. refMonth (tv - westOffset),
      getDate := \<lambda>tv. refDate (tv - westOffset),
      monthYearLabel := \<lambda>d. refMonthYearLabel (map_option (\<lambda>tv. tv - westOffset) d)\<rparr>"

section \<open>Example data\<close>

text \<open>The transaction the script of the source adds at its end.\<close>

definition newTransaction :: transaction where
  "newTransaction = \<lparr>transaction_id = ''6'', transaction_date = ''2022-05-25'',
     transaction_amount = ''150.00'', transaction_type = ''debit'',
     transaction_description = ''Payment for dinner'', merchant_name = ''Restaurant'',
     card_type = ''MasterCard''\<rparr>"

definition mkTransaction :: "string \<Rightarrow> string \<Rightarrow> string \<Rightarrow> string \<Rightarrow> transaction" where
  "mkTransaction i d am ty = \<lparr>transaction_id = i, transaction_date = d,
     transaction_amount = am, transaction_type = ty, transaction_description = ''groceries'',
     merchant_name = ''SuperMart'', card_type = ''Visa''\<rparr>"

definition debitJan :: transaction where
  "debitJan = mkTransaction ''1'' ''2019-01-15'' ''100'' ''debit''"

definition creditFeb :: transaction where
  "creditFeb = mkTransaction ''2'' ''2019-02-15'' ''50'' ''credit''"

definition creditDup :: transaction where
  "creditDup = mkTransaction ''1'' ''2019-03-15'' ''75'' ''credit''"

definition twoMonths :: analyzer where
  "twoMonths = \<lparr>transactions = [debitJan, creditFeb]\<rparr>"

definition onlyCredit :: analyzer where
  "onlyCredit = \<lparr>transactions = [creditFeb]\<rparr>"

definition onlyDebit :: analyzer where
  "onlyDebit = \<lparr>transactions = [debitJan]\<rparr>"

definition duplicateIds :: analyzer where
  "duplicateIds = \<lparr>transactions = [debitJan, creditFeb, creditDup]\<rparr>"

text \<open>A transaction whose date no engine can read.\<close>

definition undated :: transaction where
  "undated = mkTransaction ''3'' ''someday'' ''20'' ''debit''"

definition withUndated :: analyzer where
  "withUndated = \<lparr>transactions = [debitJan, undated, creditFeb]\<rparr>"

text \<open>Three amounts whose sum depends on the order in which they are added.\<close>

definition tenths :: analyzer where
  "tenths = \<lparr>transactions = [mkTransaction ''1'' ''2019-01-15'' ''0.1'' ''debit'',
     mkTransaction ''2'' ''2019-01-16'' ''0.2'' ''credit'',
     mkTransaction ''3'' ''2019-01-17'' ''0.3'' ''credit'']\<rparr>"

text \<open>
  The store of the scenario of the specification: a debit of 100 dated 2019-01-01 and
  a credit of 50 dated 2019-01-02.
\<close>

definition debitNewYear :: transaction where
  "debitNewYear = mkTransaction ''1'' ''2019-01-01'' ''100'' ''debit''"

definition creditSecond :: transaction where
  "creditSecond = mkTransaction ''2'' ''2019-01-02'' ''50'' ''credit''"

definition scenario :: analyzer where
  "scenario = \<lparr>transactions = [debitNewYear, creditSecond]\<rparr>"

section \<open>Notions used in the statements\<close>

text \<open>The index at which a value first occurs in a list (its length when it does not).\<close>

definition firstPos :: "'a \<Rightarrow> 'a list \<Rightarrow> nat" where
  "firstPos x xs = length (takeWhile (\<lambda>y. y \<noteq> x) xs)"

text \<open>The month label of every transaction of a list, in the order of the list.\<close>

definition monthLabels :: "platform \<Rightarrow> transaction list \<Rightarrow> string list" where
  "monthLabels pf ts = map (\<lambda>t. monthYearLabel pf (parseDate pf (transaction_date t))) ts"

text \<open>
  A label of the list that no other label outnumbers; and the two ways to settle a tie
  between such labels: by the earliest first occurrence, or by the latest.
\<close>

definition highestCount :: "'a \<Rightarrow> 'a list \<Rightarrow> bool" where
  "highestCount l ls = (l \<in> set ls \<and> (\<forall>l' \<in> set ls. count_list ls l' \<le> count_list ls l))"


definition lastSeenWins :: "'a \<Rightarrow> 'a list \<Rightarrow> bool" where
  "lastSeenWins l ls =
     (highestCount l ls \<and>
      (\<forall>l' \<in> set ls. count_list ls l' = count_list ls l \<longrightarrow> firstPos l' ls \<le> firstPos l ls))"

text \<open>
  A transaction whose date is valid and lies in a closed range of time values, or
  strictly before a time value.
\<close>

definition datedWithin :: "platform \<Rightarrow> int \<Rightarrow> int \<Rightarrow> transaction \<Rightarrow> bool" where
  "datedWithin pf lo hi t =
     (case parseDate pf (transaction_date t) of None \<Rightarrow> False | Some d \<Rightarrow> lo \<le> d \<and> d \<le> hi)"

definition datedBefore :: "platform \<Rightarrow> int \<Rightarrow> transaction \<Rightarrow> bool" where
  "datedBefore pf x t =
     (case parseDate pf (transaction_date t) of None \<Rightarrow> False | Some d \<Rightarrow> d < x)"

text \<open>The sum of the amounts of a list of transactions, added from the left starting at 0.\<close>

definition sumAmounts :: "platform \<Rightarrow> transaction list \<Rightarrow> jsnum" where
  "sumAmounts pf ts = foldl (addAmount pf) (Fin 0) ts"

text \<open>The transactions whose type is not \<^verbatim>\<open>debit\<close>, in store order.\<close>

definition nonDebit :: "analyzer \<Rightarrow> transaction list" where
  "nonDebit a = filter (\<lambda>t. transaction_type t \<noteq> ''debit'') (transactions a)"

text \<open>
  The sum of a list of transactions involves no rounding when every amount parses to a
  finite Number and every addition of the running sum, started at 0, gives the exact
  result. \<open>exactSum\<close> is the sum of the amounts as rationals.
\<close>

definition finiteAmount :: "platform \<Rightarrow> transaction \<Rightarrow> rat" where
  "finiteAmount pf t = (case parseFloat pf (transaction_amount t) of Fin x \<Rightarrow> x | _ \<Rightarrow> 0)"

definition exactSum :: "platform \<Rightarrow> transaction list \<Rightarrow> rat" where
  "exactSum pf ts = sum_list (map (finiteAmount pf) ts)"

fun exactFrom :: "platform \<Rightarrow> rat \<Rightarrow> transaction list \<Rightarrow> bool" where
  "exactFrom pf s [] = True"
| "exactFrom pf s (t # ts) =
     (case parseFloat pf (transaction_amount t) of
        Fin x \<Rightarrow> roundNum pf (s + x) = Fin (s + x) \<and> exactFrom pf (s + x) ts
      | _ \<Rightarrow> False)"

definition noRounding :: "platform \<Rightarrow> transaction list \<Rightarrow> bool" where
  "noRounding pf ts = exactFrom pf 0 ts"

section \<open>Properties\<close>

subsection \<open>Appending\<close>

text \<open>
  C5. After \<^verbatim>\<open>addTransaction(t)\<close> the sequence \<^verbatim>\<open>getAllTransaction()\<close> returns is the
  old one followed by \<open>t\<close>: one element longer, its last element is \<open>t\<close>, and the
  elements before it are the old ones in their order. A call of any method other than
  \<^verbatim>\<open>addTransaction\<close> leaves the analyzer as it was.
\<close>

theorem addTransaction_append_only:
  "getAllTransaction (addTransaction a t) = getAllTransaction a @ [t] \<and>
   length (getAllTransaction (addTransaction a t)) = length (getAllTransaction a) + 1 \<and>
   last (getAllTransaction (addTransaction a t)) = t \<and>
   take (length (getAllTransaction a)) (getAllTransaction (addTransaction a t)) =
     getAllTransaction a \<and>
   (\<forall>i < length (getAllTransaction a).
      getAllTransaction (addTransaction a t) ! i = getAllTransaction a ! i) \<and>
   (\<not> isAdd opn \<longrightarrow> snd (call pf opn a) = a)"
proof -
  have frame: "\<not> isAdd opn \<longrightarrow> snd (call pf opn a) = a"
    by (cases opn) simp_all
  have app: "getAllTransaction (addTransaction a t) = getAllTransaction a @ [t]"
    by (simp add: getAllTransaction_def addTransaction_def)
  show ?thesis
    using frame by (simp add: app nth_append)
qed

theorem addTransaction_append_only_witness:
  "getAllTransaction (addTransaction twoMonths newTransaction) =
     [debitJan, creditFeb, newTransaction] \<and>
   snd (call refPlatform MostTransactionTypes twoMonths) = twoMonths \<and>
   snd (call refPlatform (FindTransactionById ''6'') twoMonths) = twoMonths"
  using addTransaction_append_only [of twoMonths newTransaction MostTransactionTypes refPlatform]
    addTransaction_append_only [of twoMonths newTransaction "FindTransactionById ''6''" refPlatform]
  by (simp add: getAllTransaction_def twoMonths_def)

subsection \<open>Lookup by identifier\<close>

text \<open>
  C7. \<^verbatim>\<open>findTransactionById(id)\<close> returns the transaction at the lowest index whose
  \<^verbatim>\<open>transaction_id\<close> equals \<open>id\<close>, also when several transactions carry that
  identifier, and returns null (never throws) exactly when no transaction carries it.
\<close>

theorem findTransactionById_first_match:
  "(findTransactionById a ident = None \<longleftrightarrow>
      (\<forall>t \<in> set (transactions a). transaction_id t \<noteq> ident)) \<and>
   (findTransactionById a ident = Some t \<longleftrightarrow>
      (\<exists>i < length (transactions a).
         transactions a ! i = t \<and> transaction_id t = ident \<and>
         (\<forall>j < i. transaction_id (transactions a ! j) \<noteq> ident)))"
  by (auto simp: findTransactionById_def find_None_iff find_Some_iff)

theorem findTransactionById_first_match_witness:
  "findTransactionById duplicateIds ''1'' = Some debitJan \<and>
   findTransactionById duplicateIds ''7'' = None"
  using findTransactionById_first_match [of duplicateIds "''1''" debitJan]
    findTransactionById_first_match [of duplicateIds "''7''" debitJan]
  by (simp add: findTransactionById_def duplicateIds_def debitJan_def creditFeb_def
      creditDup_def mkTransaction_def)

subsection \<open>Counting in an object\<close>

lemma getProp_setProp:
  "getProp (setProp k v obj) k' = (if k' = k then Some v else getProp obj k')"
  by (induction obj) (auto simp: getProp_def)

lemma objectKeys_setProp:
  "objectKeys (setProp k v obj) = setAdd (objectKeys obj) k"
  by (induction obj) (force simp: objectKeys_def setAdd_def)+

lemma getProp_tally:
  "getProp (tally acc k) k' =
     (if k' = k then Some (orZero (getProp acc k) + 1) else getProp acc k')"
  by (simp add: tally_def getProp_setProp)

lemma objectKeys_tally: "objectKeys (tally acc k) = setAdd (objectKeys acc) k"
  by (simp add: tally_def objectKeys_setProp)

lemma getProp_None_iff: "getProp obj k = None \<longleftrightarrow> k \<notin> set (objectKeys obj)"
  by (simp add: getProp_def objectKeys_def map_of_eq_None_iff)

lemma set_setAdd: "set (setAdd seen x) = insert x (set seen)"
  by (auto simp: setAdd_def)

lemma set_foldl_setAdd: "set (foldl setAdd seen xs) = set seen \<union> set xs"
  by (induction xs arbitrary: seen) (auto simp: set_setAdd)

lemma distinct_setAdd: "distinct seen \<Longrightarrow> distinct (setAdd seen x)"
  by (simp add: setAdd_def)

lemma distinct_foldl_setAdd: "distinct seen \<Longrightarrow> distinct (foldl setAdd seen xs)"
  by (induction xs arbitrary: seen) (auto simp: distinct_setAdd)

lemma objectKeys_foldl_tally:
  "objectKeys (foldl tally acc ks) = foldl setAdd (objectKeys acc) ks"
  by (induction ks arbitrary: acc) (auto simp: objectKeys_tally)

lemma getProp_foldl_tally:
  "getProp (foldl tally acc ks) k =
     (if k \<in> set ks then Some (orZero (getProp acc k) + count_list ks k) else getProp acc k)"
proof (induction ks arbitrary: acc)
  case Nil
  then show ?case by simp
next
  case (Cons x ks)
  show ?case
    by (simp add: Cons.IH getProp_tally orZero_def)
qed

lemma getProp_empty: "getProp [] k = None"
  by (simp add: getProp_def)

lemma getProp_counted:
  "getProp (foldl tally [] ks) k = (if k \<in> set ks then Some (count_list ks k) else None)"
  by (simp add: getProp_foldl_tally getProp_empty orZero_def)

lemma objectKeys_counted: "objectKeys (foldl tally [] ks) = arrayFromSet ks"
  using objectKeys_foldl_tally [of "[]" ks] by (simp add: objectKeys_def arrayFromSet_def)

lemma foldl_tally_by:
  "foldl (\<lambda>acc t. tally acc (f t)) acc ts = foldl tally acc (map f ts)"
  by (simp add: foldl_map)

lemma foldl_tallyMonth:
  "foldl (tallyMonth pf) acc ts =
     foldl tally acc (map (\<lambda>t. monthYearLabel pf (parseDate pf (transaction_date t))) ts)"
  by (simp add: foldl_map tallyMonth_def[abs_def] Let_def)

subsection \<open>The key with the highest count\<close>

lemma firstPos_less: "x \<in> set xs \<Longrightarrow> firstPos x xs < length xs"
  by (induction xs) (auto simp: firstPos_def)

lemma firstPos_append_in: "x \<in> set xs \<Longrightarrow> firstPos x (xs @ ys) = firstPos x xs"
  by (simp add: firstPos_def takeWhile_append1)

lemma firstPos_append_new: "x \<notin> set xs \<Longrightarrow> firstPos x (xs @ [x]) = length xs"
  by (induction xs) (auto simp: firstPos_def)

lemma set_arrayFromSet: "set (arrayFromSet xs) = set xs"
  by (simp add: arrayFromSet_def set_foldl_setAdd)

lemma distinct_arrayFromSet: "distinct (arrayFromSet xs)"
  by (simp add: arrayFromSet_def distinct_foldl_setAdd)

lemma arrayFromSet_snoc: "arrayFromSet (xs @ [x]) = setAdd (arrayFromSet xs) x"
  by (simp add: arrayFromSet_def)

lemma arrayFromSet_order:
  "arrayFromSet ls = pre @ r # post \<Longrightarrow>
     (\<forall>y \<in> set pre. firstPos y ls < firstPos r ls) \<and>
     (\<forall>y \<in> set post. firstPos r ls < firstPos y ls)"
proof (induction ls arbitrary: pre r post rule: rev_induct)
  case Nil
  then show ?case by (simp add: arrayFromSet_def)
next
  case (snoc x ls)
  show ?case
  proof (cases "x \<in> set ls")
    case True
    then have keys: "arrayFromSet ls = pre @ r # post"
      using snoc.prems by (simp add: arrayFromSet_snoc setAdd_def set_arrayFromSet)
    then have mem: "set pre \<subseteq> set ls" "r \<in> set ls" "set post \<subseteq> set ls"
      using set_arrayFromSet [of ls] by auto
    from snoc.IH [OF keys] mem show ?thesis
      by (auto simp: firstPos_append_in subset_iff)
  next
    case False
    then have keys: "arrayFromSet ls @ [x] = pre @ r # post"
      using snoc.prems by (simp add: arrayFromSet_snoc setAdd_def set_arrayFromSet)
    show ?thesis
    proof (cases post rule: rev_cases)
      case Nil
      with keys have eq: "arrayFromSet ls = pre" "r = x" by auto
      then have "set pre = set ls" using set_arrayFromSet [of ls] by simp
      then show ?thesis
        using Nil eq False by (auto simp: firstPos_append_in firstPos_append_new firstPos_less)
    next
      case (snoc post' z)
      with keys have eq: "arrayFromSet ls = pre @ r # post'" "z = x" by auto
      then have mem: "set pre \<subseteq> set ls" "r \<in> set ls" "set post' \<subseteq> set ls"
        using set_arrayFromSet [of ls] by auto
      from snoc.IH [OF eq(1)] mem False show ?thesis
        using snoc eq(2)
        by (auto simp: firstPos_append_in firstPos_append_new firstPos_less subset_iff)
    qed
  qed
qed

lemma foldl_pick_split:
  assumes "\<forall>a \<in> set (x # xs). \<forall>b \<in> set (x # xs). f a b = (if c b < c a then a else b)"
  shows "\<exists>pre post. x # xs = pre @ foldl f x xs # post \<and>
           (\<forall>y \<in> set pre. c y \<le> c (foldl f x xs)) \<and>
           (\<forall>y \<in> set post. (c y :: nat) < c (foldl f x xs))"
  using assms
proof (induction xs rule: rev_induct)
  case Nil
  show ?case by (rule exI [of _ "[]"], rule exI [of _ "[]"]) simp
next
  case (snoc z xs)
  let ?r = "foldl f x xs"
  from snoc.prems
  have sub: "\<forall>a \<in> set (x # xs). \<forall>b \<in> set (x # xs). f a b = (if c b < c a then a else b)"
    by simp
  from snoc.IH [OF sub] obtain pre post where
    split: "x # xs = pre @ ?r # post" and
    before: "\<forall>y \<in> set pre. c y \<le> c ?r" and
    after: "\<forall>y \<in> set post. c y < c ?r"
    by blast
  from split have rin: "?r \<in> set (x # xs)"
    by (metis in_set_conv_decomp)
  then have r2: "?r \<in> set (x # xs @ [z])" by auto
  have z2: "z \<in> set (x # xs @ [z])" by simp
  from snoc.prems r2 z2 have step: "f ?r z = (if c z < c ?r then ?r else z)"
    by blast
  show ?case
  proof (cases "c z < c ?r")
    case True
    then have res: "foldl f x (xs @ [z]) = ?r" using step by simp
    have "x # xs @ [z] = pre @ ?r # (post @ [z])" using split by simp
    moreover have "\<forall>y \<in> set (post @ [z]). c y < c ?r" using after True by simp
    ultimately show ?thesis using before unfolding res by blast
  next
    case False
    then have res: "foldl f x (xs @ [z]) = z" using step by simp
    have all: "\<forall>y \<in> set (x # xs). c y \<le> c z"
    proof
      fix y assume "y \<in> set (x # xs)"
      then have "y \<in> set pre \<or> y = ?r \<or> y \<in> set post" using split
        by (metis Un_iff set_ConsD set_append)
      then have "c y \<le> c ?r" using before after by (auto simp: less_imp_le)
      then show "c y \<le> c z" using False by simp
    qed
    have "x # xs @ [z] = (x # xs) @ z # []" by simp
    then show ?thesis using all unfolding res by (metis empty_iff list.set(1))
  qed
qed

lemma pickKey_counted:
  assumes "a \<in> set ls" and "b \<in> set ls"
  shows "pickKey (foldl tally [] ls) a b = (if count_list ls b < count_list ls a then a else b)"
  using assms by (simp add: pickKey_def getProp_counted)

lemma mostFrequent_lastSeen:
  assumes "ls \<noteq> []"
  shows "\<exists>l. reduce1 (pickKey (foldl tally [] ls)) (objectKeys (foldl tally [] ls)) = Inr l \<and>
           lastSeenWins l ls"
proof -
  let ?count = "foldl tally [] ls"
  have keys: "objectKeys ?count = arrayFromSet ls" by (rule objectKeys_counted)
  have "set (arrayFromSet ls) \<noteq> {}" using assms by (simp add: set_arrayFromSet)
  then obtain x xs where cons: "arrayFromSet ls = x # xs"
    by (cases "arrayFromSet ls") auto
  let ?r = "foldl (pickKey ?count) x xs"
  have res: "reduce1 (pickKey ?count) (objectKeys ?count) = Inr ?r"
    by (simp add: keys cons)
  have mem: "set (x # xs) = set ls" using set_arrayFromSet [of ls] cons by simp
  have pick: "\<forall>a \<in> set (x # xs). \<forall>b \<in> set (x # xs).
      pickKey ?count a b = (if count_list ls b < count_list ls a then a else b)"
    unfolding mem by (simp add: pickKey_counted)
  from foldl_pick_split [OF pick] obtain pre post where
    split: "x # xs = pre @ ?r # post" and
    before: "\<forall>y \<in> set pre. count_list ls y \<le> count_list ls ?r" and
    after: "\<forall>y \<in> set post. count_list ls y < count_list ls ?r"
    by blast
  have "set (x # xs) = set (pre @ ?r # post)" using split by simp
  then have parts: "set ls = set pre \<union> {?r} \<union> set post"
    using mem by simp
  from split cons have "arrayFromSet ls = pre @ ?r # post" by simp
  from arrayFromSet_order [OF this]
  have order: "\<forall>y \<in> set pre. firstPos y ls < firstPos ?r ls" by simp
  have top: "\<forall>l' \<in> set ls. count_list ls l' \<le> count_list ls ?r"
  proof
    fix l' assume "l' \<in> set ls"
    then have "l' \<in> set pre \<or> l' = ?r \<or> l' \<in> set post" using parts by blast
    then show "count_list ls l' \<le> count_list ls ?r"
      using before after by (auto simp: less_imp_le)
  qed
  have "?r \<in> set ls" using parts by blast
  with top have high: "highestCount ?r ls" by (simp add: highestCount_def)
  have ties: "\<forall>l' \<in> set ls. count_list ls l' = count_list ls ?r \<longrightarrow>
      firstPos l' ls \<le> firstPos ?r ls"
  proof (intro ballI impI)
    fix l' assume l': "l' \<in> set ls" and same: "count_list ls l' = count_list ls ?r"
    from l' have "l' \<in> set pre \<or> l' = ?r \<or> l' \<in> set post" using parts by blast
    moreover have "l' \<notin> set post" using after same by auto
    ultimately have "l' \<in> set pre \<or> l' = ?r" by blast
    then show "firstPos l' ls \<le> firstPos ?r ls"
      using order by (auto simp: less_imp_le)
  qed
  from high ties have "lastSeenWins ?r ls" by (simp add: lastSeenWins_def)
  with res show ?thesis by blast
qed


lemma findMostDebitTransactionMonth_labels:
  "findMostDebitTransactionMonth pf a =
     reduce1 (pickKey (foldl tally [] (monthLabels pf (getTransactionByType a ''debit''))))
       (objectKeys (foldl tally [] (monthLabels pf (getTransactionByType a ''debit''))))"
  by (simp add: findMostDebitTransactionMonth_def foldl_tallyMonth monthLabels_def Let_def)








subsection \<open>Comparing the two types\<close>

lemma count_gt_counted:
  "count_gt (getProp (foldl tally [] ks) a) (getProp (foldl tally [] ks) b) =
     (0 < count_list ks b \<and> count_list ks b < count_list ks a)"
proof (cases "a \<in> set ks")
  case True
  then show ?thesis
    using count_list_0_iff [of ks b] by (cases "b \<in> set ks") (simp_all add: getProp_counted)
next
  case False
  then have "count_list ks a = 0" by (simp add: count_list_0_iff)
  with False show ?thesis by (simp add: getProp_counted)
qed

lemma mostTransactionTypes_by_counts:
  "mostTransactionTypes a =
     (let types = map transaction_type (transactions a);
          d = count_list types ''debit''; c = count_list types ''credit''
      in if 0 < c \<and> c < d then ''debit'' else if 0 < d \<and> d < c then ''credit'' else ''equal'')"
proof -
  have "foldl (\<lambda>acc t. tally acc (transaction_type t)) [] (transactions a) =
      foldl tally [] (map transaction_type (transactions a))"
    by (rule foldl_tally_by)
  then show ?thesis
    by (simp only: mostTransactionTypes_def count_gt_counted Let_def)
qed

text \<open>
  C1. \<^verbatim>\<open>mostTransactionTypes()\<close> reads only the counts of \<^verbatim>\<open>debit\<close> and
  \<^verbatim>\<open>credit\<close>, but a type without any transaction has no count at all
  (\<^verbatim>\<open>undefined\<close>), and a comparison with it is false: on a store with one debit
  and no credit transaction the debit count 1 exceeds the credit count 0, and the
  result is \<^verbatim>\<open>equal\<close>, not \<^verbatim>\<open>debit\<close>.
\<close>

theorem mostTransactionTypes_debit_only:
  "length (getTransactionByType onlyDebit ''debit'') = 1 \<and>
   length (getTransactionByType onlyDebit ''credit'') = 0 \<and>
   mostTransactionTypes onlyDebit = ''equal''"
  by (simp add: mostTransactionTypes_by_counts getTransactionByType_def onlyDebit_def
      debitJan_def mkTransaction_def)

subsection \<open>The month of the debit transactions\<close>

text \<open>
  C10. \<^verbatim>\<open>findMostDebitTransactionMonth()\<close> throws (the reduce over no keys has no
  initial value) on every store without a debit transaction, empty or not, and on no
  other store.
\<close>

theorem findMostDebitTransactionMonth_throws_iff_no_debit:
  "findMostDebitTransactionMonth pf a = Inl TypeError \<longleftrightarrow>
     (\<forall>t \<in> set (transactions a). transaction_type t \<noteq> ''debit'')"
proof (cases "getTransactionByType a ''debit'' = []")
  case True
  then have "findMostDebitTransactionMonth pf a = Inl TypeError"
    by (simp add: findMostDebitTransactionMonth_def objectKeys_def)
  moreover from True have "\<forall>t \<in> set (transactions a). transaction_type t \<noteq> ''debit''"
    by (simp add: getTransactionByType_def filter_empty_conv)
  ultimately show ?thesis by simp
next
  case False
  then have "monthLabels pf (getTransactionByType a ''debit'') \<noteq> []"
    by (simp add: monthLabels_def)
  from mostFrequent_lastSeen [OF this]
  have "\<exists>l. findMostDebitTransactionMonth pf a = Inr l"
    by (auto simp: findMostDebitTransactionMonth_labels)
  moreover from False have "\<not> (\<forall>t \<in> set (transactions a). transaction_type t \<noteq> ''debit'')"
    by (simp add: getTransactionByType_def filter_empty_conv)
  ultimately show ?thesis by auto
qed

theorem findMostDebitTransactionMonth_throws_iff_no_debit_witness:
  "transactions onlyCredit \<noteq> [] \<and>
   findMostDebitTransactionMonth refPlatform onlyCredit = Inl TypeError \<and>
   findMostDebitTransactionMonth refPlatform \<lparr>transactions = []\<rparr> = Inl TypeError"
  using findMostDebitTransactionMonth_throws_iff_no_debit [of refPlatform onlyCredit]
    findMostDebitTransactionMonth_throws_iff_no_debit [of refPlatform "\<lparr>transactions = []\<rparr>"]
  by (simp add: onlyCredit_def creditFeb_def mkTransaction_def)

subsection \<open>Filters on the date\<close>

lemma date_ge_le_Some:
  "date_ge d (Some lo) \<and> date_le d (Some hi) \<longleftrightarrow>
     (case d of None \<Rightarrow> False | Some x \<Rightarrow> lo \<le> x \<and> x \<le> hi)"
  by (cases d) (simp_all add: date_ge_def)

lemma date_lt_Some: "date_lt d (Some x) \<longleftrightarrow> (case d of None \<Rightarrow> False | Some y \<Rightarrow> y < x)"
  by (cases d) simp_all

lemma getTransactionsInDateRange_valid:
  assumes "parseDate pf s = Some lo" and "parseDate pf e = Some hi"
  shows "getTransactionsInDateRange pf a s e = filter (datedWithin pf lo hi) (transactions a)"
  by (simp add: getTransactionsInDateRange_def assms Let_def date_ge_le_Some datedWithin_def
      cong: filter_cong)

lemma getTransactionsBeforeDate_valid:
  assumes "parseDate pf d = Some x"
  shows "getTransactionsBeforeDate pf a d = filter (datedBefore pf x) (transactions a)"
  by (simp add: getTransactionsBeforeDate_def assms Let_def date_lt_Some datedBefore_def
      cong: filter_cong)

text \<open>
  C6. For valid dates \<open>s \<le> e\<close>, \<^verbatim>\<open>getTransactionsInDateRange(s, e)\<close> returns, in
  store order, exactly the transactions whose date is valid and lies between \<open>s\<close> and
  \<open>e\<close>, both ends included: a transaction dated exactly \<open>s\<close> or exactly \<open>e\<close> is
  returned. \<^verbatim>\<open>getTransactionsBeforeDate(d)\<close> returns exactly those dated strictly
  before \<open>d\<close>: a transaction dated exactly \<open>d\<close> is not returned.
\<close>

theorem date_range_inclusive_before_strict:
  assumes "parseDate pf s = Some lo" and "parseDate pf e = Some hi" and "lo \<le> hi"
    and "parseDate pf d = Some x"
  shows "getTransactionsInDateRange pf a s e = filter (datedWithin pf lo hi) (transactions a) \<and>
    (\<forall>t \<in> set (transactions a).
       parseDate pf (transaction_date t) = Some lo \<or> parseDate pf (transaction_date t) = Some hi
         \<longrightarrow> t \<in> set (getTransactionsInDateRange pf a s e)) \<and>
    getTransactionsBeforeDate pf a d = filter (datedBefore pf x) (transactions a) \<and>
    (\<forall>t \<in> set (transactions a).
       parseDate pf (transaction_date t) = Some x \<longrightarrow> t \<notin> set (getTransactionsBeforeDate pf a d))"
proof -
  have range: "getTransactionsInDateRange pf a s e = filter (datedWithin pf lo hi) (transactions a)"
    using assms(1,2) by (rule getTransactionsInDateRange_valid)
  have before: "getTransactionsBeforeDate pf a d = filter (datedBefore pf x) (transactions a)"
    using assms(4) by (rule getTransactionsBeforeDate_valid)
  have ends: "\<forall>t \<in> set (transactions a).
       parseDate pf (transaction_date t) = Some lo \<or> parseDate pf (transaction_date t) = Some hi
         \<longrightarrow> t \<in> set (getTransactionsInDateRange pf a s e)"
    unfolding range using assms(3) by (auto simp: datedWithin_def)
  have strict: "\<forall>t \<in> set (transactions a).
       parseDate pf (transaction_date t) = Some x \<longrightarrow> t \<notin> set (getTransactionsBeforeDate pf a d)"
    unfolding before by (auto simp: datedBefore_def)
  from range before ends strict show ?thesis by blast
qed

lemma ref_jan15: "parseDate refPlatform ''2019-01-15'' = Some 1547510400000"
  by code_simp

lemma ref_feb15: "parseDate refPlatform ''2019-02-15'' = Some 1550188800000"
  by code_simp

lemma ref_someday: "parseDate refPlatform ''someday'' = None"
  by code_simp

theorem date_range_inclusive_before_strict_witness:
  "getTransactionsInDateRange refPlatform withUndated ''2019-01-15'' ''2019-02-15'' =
     [debitJan, creditFeb] \<and>
   getTransactionsBeforeDate refPlatform withUndated ''2019-02-15'' = [debitJan]"
  using date_range_inclusive_before_strict [OF ref_jan15 ref_feb15 _ ref_feb15, of withUndated]
  by (simp add: withUndated_def datedWithin_def datedBefore_def debitJan_def creditFeb_def
      undated_def mkTransaction_def ref_jan15 ref_feb15 ref_someday)

text \<open>
  C9. A transaction whose date string does not parse is in the result of neither
  \<^verbatim>\<open>getTransactionsInDateRange\<close> nor \<^verbatim>\<open>getTransactionsBeforeDate\<close>, whatever the
  arguments; and a call of a method that filters on the date returns a value, it does
  not throw.
\<close>

theorem unparseable_date_excluded:
  assumes "parseDate pf (transaction_date t) = None"
  shows "t \<notin> set (getTransactionsInDateRange pf a s e) \<and>
    t \<notin> set (getTransactionsBeforeDate pf a d) \<and>
    (\<exists>rs. fst (call pf (GetTransactionsInDateRange s e) a) = Records rs) \<and>
    (\<exists>rs. fst (call pf (GetTransactionsBeforeDate d) a) = Records rs) \<and>
    (\<exists>n. fst (call pf (CalculateTotalAmountByDate year month day) a) = Number n)"
  using assms
  by (simp add: getTransactionsInDateRange_def getTransactionsBeforeDate_def Let_def date_ge_def)

theorem unparseable_date_excluded_witness:
  "undated \<in> set (transactions withUndated) \<and>
   parseDate refPlatform (transaction_date undated) = None \<and>
   undated \<notin> set (getTransactionsInDateRange refPlatform withUndated ''2019-01-15'' ''2019-02-15'') \<and>
   undated \<notin> set (getTransactionsBeforeDate refPlatform withUndated ''2019-02-15'')"
proof -
  have inv: "parseDate refPlatform (transaction_date undated) = None"
    by (simp add: undated_def mkTransaction_def ref_someday)
  from unparseable_date_excluded [OF inv, of withUndated "''2019-01-15''" "''2019-02-15''" "''2019-02-15''"]
  show ?thesis using inv by (simp add: withUndated_def)
qed

subsection \<open>Totals\<close>

lemma ref_amount_100: "parseFloat refPlatform ''100'' = Fin 100"
  by code_simp

lemma ref_amount_50: "parseFloat refPlatform ''50'' = Fin 50"
  by code_simp

lemma ref_round_100: "roundNum refPlatform 100 = Fin 100"
  by code_simp

lemma ref_round_150: "roundNum refPlatform 150 = Fin 150"
  by code_simp

lemma ref_round_50: "roundNum refPlatform 50 = Fin 50"
  by code_simp

lemma ref_round_75: "roundNum refPlatform 75 = Fin 75"
  by code_simp

lemma twoMonths_amounts:
  "addAmount refPlatform (Fin 0) debitJan = Fin 100"
  "addAmount refPlatform (Fin 100) creditFeb = Fin 150"
  "addAmount refPlatform (Fin 0) creditFeb = Fin 50"
  by (simp_all add: addAmount_def debitJan_def creditFeb_def mkTransaction_def ref_amount_100
      ref_amount_50 ref_round_100 ref_round_150 ref_round_50)

lemma scenario_amounts:
  "addAmount refPlatform (Fin 0) debitNewYear = Fin 100"
  "addAmount westPlatform (Fin 0) creditSecond = Fin 50"
  by (simp_all add: addAmount_def debitNewYear_def creditSecond_def mkTransaction_def
      westPlatform_def ref_amount_100 ref_amount_50 ref_round_100 ref_round_50)

lemma ref_jan1: "parseDate refPlatform ''2019-01-01'' = Some 1546300800000"
  by code_simp

lemma ref_jan2: "parseDate refPlatform ''2019-01-02'' = Some 1546387200000"
  by code_simp

lemma west_parseDate: "parseDate westPlatform = parseDate refPlatform"
  by (simp add: westPlatform_def)

lemma ref_fields_jan1:
  "getFullYear refPlatform 1546300800000 = 2019 \<and> getMonth refPlatform 1546300800000 = 0 \<and>
   getDate refPlatform 1546300800000 = 1"
  by code_simp

lemma ref_fields_jan2:
  "getFullYear refPlatform 1546387200000 = 2019 \<and> getMonth refPlatform 1546387200000 = 0 \<and>
   getDate refPlatform 1546387200000 = 2"
  by code_simp

lemma west_fields_jan1:
  "getFullYear westPlatform 1546300800000 = 2018 \<and> getMonth westPlatform 1546300800000 = 11 \<and>
   getDate westPlatform 1546300800000 = 31"
  by code_simp

lemma west_fields_jan2:
  "getFullYear westPlatform 1546387200000 = 2019 \<and> getMonth westPlatform 1546387200000 = 0 \<and>
   getDate westPlatform 1546387200000 = 1"
  by code_simp

text \<open>
  C3. \<^verbatim>\<open>calculateTotalAmountByDate(year, month, day)\<close> compares its arguments with
  the year, month and day of each transaction in the local time of the host, while
  \<^verbatim>\<open>new Date\<close> reads a date-only string as midnight UTC. On a host west of Greenwich
  the transaction dated 2019-01-01 falls on 31 December 2018 and the one dated
  2019-01-02 on 1 January 2019: for the store of the scenario,
  \<^verbatim>\<open>calculateTotalAmountByDate(2019, 1, 1)\<close> is 50, the amount of the transaction dated
  2 January, and not 100, the amount of the one dated 1 January, which is what a host
  in UTC returns.
\<close>

theorem calculateTotalAmountByDate_west_of_utc:
  "transaction_date debitNewYear = ''2019-01-01'' \<and>
   transaction_date creditSecond = ''2019-01-02'' \<and>
   calculateTotalAmountByDate westPlatform scenario (Some 2019) (Some 1) (Some 1) = Fin 50 \<and>
   calculateTotalAmountByDate refPlatform scenario (Some 2019) (Some 1) (Some 1) = Fin 100"
proof -
  have dates:
    "parseDate refPlatform (transaction_date debitNewYear) = Some 1546300800000"
    "parseDate refPlatform (transaction_date creditSecond) = Some 1546387200000"
    by (simp_all add: debitNewYear_def creditSecond_def mkTransaction_def ref_jan1 ref_jan2)
  have west: "calculateTotalAmountByDate westPlatform scenario (Some 2019) (Some 1) (Some 1) =
      Fin 50"
    by (simp add: calculateTotalAmountByDate_def scenario_def falsy_def dateField_def
        plusOne_def west_parseDate dates west_fields_jan1 west_fields_jan2 scenario_amounts)
  have utc: "calculateTotalAmountByDate refPlatform scenario (Some 2019) (Some 1) (Some 1) =
      Fin 100"
    by (simp add: calculateTotalAmountByDate_def scenario_def falsy_def dateField_def
        plusOne_def dates ref_fields_jan1 ref_fields_jan2 scenario_amounts)
  from west utc show ?thesis
    by (simp add: debitNewYear_def creditSecond_def mkTransaction_def)
qed

text \<open>
  C8. \<^verbatim>\<open>calculateAverageTransactionAmount()\<close> is the total divided by the number of
  transactions: on a store that is not empty whose total is the finite value \<open>x\<close>,
  the rounded quotient of \<open>x\<close> by the count; on the empty store \<^verbatim>\<open>0 / 0\<close>, which
  is NaN. The call returns a Number in every case, it does not throw.
\<close>

theorem calculateAverageTransactionAmount_total_over_count:
  "calculateAverageTransactionAmount pf a =
     num_div (roundNum pf) (calculateTotalAmount pf a) (Fin (of_nat (length (transactions a)))) \<and>
   (transactions a \<noteq> [] \<longrightarrow> calculateTotalAmount pf a = Fin x \<longrightarrow>
      calculateAverageTransactionAmount pf a = roundNum pf (x / of_nat (length (transactions a)))) \<and>
   (transactions a = [] \<longrightarrow> calculateAverageTransactionAmount pf a = NaN) \<and>
   (\<exists>n. fst (call pf CalculateAverageTransactionAmount a) = Number n)"
  by (simp add: calculateAverageTransactionAmount_def calculateTotalAmount_def Let_def)

lemma twoMonths_total: "calculateTotalAmount refPlatform twoMonths = Fin 150"
  by (simp add: calculateTotalAmount_def twoMonths_def twoMonths_amounts)

theorem calculateAverageTransactionAmount_total_over_count_witness:
  "transactions twoMonths \<noteq> [] \<and>
   calculateTotalAmount refPlatform twoMonths = Fin 150 \<and>
   calculateAverageTransactionAmount refPlatform twoMonths = Fin 75 \<and>
   calculateAverageTransactionAmount refPlatform \<lparr>transactions = []\<rparr> = NaN"
proof -
  have ne: "transactions twoMonths \<noteq> []" by (simp add: twoMonths_def)
  from calculateAverageTransactionAmount_total_over_count [of refPlatform twoMonths 150]
    ne twoMonths_total
  have "calculateAverageTransactionAmount refPlatform twoMonths =
      roundNum refPlatform (150 / of_nat (length (transactions twoMonths)))"
    by blast
  then have avg: "calculateAverageTransactionAmount refPlatform twoMonths = Fin 75"
    by (simp add: twoMonths_def ref_round_75)
  from calculateAverageTransactionAmount_total_over_count
    [of refPlatform "\<lparr>transactions = []\<rparr>" 0]
  have emp: "calculateAverageTransactionAmount refPlatform \<lparr>transactions = []\<rparr> = NaN"
    by (simp add: calculateTotalAmount_def)
  from ne twoMonths_total avg emp show ?thesis by simp
qed

subsection \<open>The total and its parts\<close>

lemma exactFrom_foldl:
  "exactFrom pf s ts \<Longrightarrow> foldl (addAmount pf) (Fin s) ts = Fin (s + exactSum pf ts)"
proof (induction ts arbitrary: s)
  case Nil
  then show ?case by (simp add: exactSum_def)
next
  case (Cons t ts)
  from Cons.prems obtain x where
    amount: "parseFloat pf (transaction_amount t) = Fin x" and
    exact: "roundNum pf (s + x) = Fin (s + x)" and
    rest: "exactFrom pf (s + x) ts"
    by (auto split: jsnum.splits)
  have "addAmount pf (Fin s) t = Fin (s + x)"
    by (simp add: addAmount_def amount exact)
  moreover have "exactSum pf (t # ts) = x + exactSum pf ts"
    by (simp add: exactSum_def finiteAmount_def amount)
  ultimately show ?case
    using Cons.IH [OF rest] by (simp add: add.assoc)
qed

lemma exactFrom_last:
  "ts \<noteq> [] \<Longrightarrow> exactFrom pf s ts \<Longrightarrow>
     roundNum pf (s + exactSum pf ts) = Fin (s + exactSum pf ts)"
proof (induction ts arbitrary: s)
  case Nil
  then show ?case by simp
next
  case (Cons t ts)
  from Cons.prems(2) obtain x where
    amount: "parseFloat pf (transaction_amount t) = Fin x" and
    exact: "roundNum pf (s + x) = Fin (s + x)" and
    rest: "exactFrom pf (s + x) ts"
    by (auto split: jsnum.splits)
  have sum: "exactSum pf (t # ts) = x + exactSum pf ts"
    by (simp add: exactSum_def finiteAmount_def amount)
  show ?case
  proof (cases "ts = []")
    case True
    then show ?thesis using exact by (simp add: exactSum_def finiteAmount_def amount)
  next
    case False
    from Cons.IH [OF False rest] show ?thesis by (simp add: sum add.assoc)
  qed
qed

lemma exactSum_split:
  "exactSum pf ts = exactSum pf (filter P ts) + exactSum pf (filter (\<lambda>t. \<not> P t) ts)"
  by (induction ts) (simp_all add: exactSum_def)

text \<open>
  C4 (as amended). On a store that is not empty, if every amount parses to a finite
  Number and none of the additions made by the three sums rounds, then
  \<^verbatim>\<open>calculateTotalAmount()\<close> equals \<^verbatim>\<open>calculateTotalDebitAmount()\<close> plus the sum
  of the amounts of the transactions that are not debits. On the empty store
  \<^verbatim>\<open>calculateTotalAmount()\<close> is 0.
\<close>

theorem calculateTotalAmount_debit_plus_rest_when_exact:
  assumes "transactions a \<noteq> []"
    and "noRounding pf (transactions a)"
    and "noRounding pf (getTransactionByType a ''debit'')"
    and "noRounding pf (nonDebit a)"
  shows "calculateTotalAmount pf a =
      num_add (roundNum pf) (calculateTotalDebitAmount pf a) (sumAmounts pf (nonDebit a)) \<and>
    calculateTotalAmount pf \<lparr>transactions = []\<rparr> = Fin 0"
proof -
  let ?all = "exactSum pf (transactions a)"
  let ?d = "exactSum pf (getTransactionByType a ''debit'')"
  let ?n = "exactSum pf (nonDebit a)"
  have total: "calculateTotalAmount pf a = Fin ?all"
    using exactFrom_foldl [of pf 0 "transactions a"] assms(2)
    by (simp add: calculateTotalAmount_def noRounding_def)
  have debit: "calculateTotalDebitAmount pf a = Fin ?d"
    using exactFrom_foldl [of pf 0 "getTransactionByType a ''debit''"] assms(3)
    by (simp add: calculateTotalDebitAmount_def noRounding_def)
  have rest: "sumAmounts pf (nonDebit a) = Fin ?n"
    using exactFrom_foldl [of pf 0 "nonDebit a"] assms(4)
    by (simp add: sumAmounts_def noRounding_def)
  have split: "?all = ?d + ?n"
    unfolding getTransactionByType_def nonDebit_def by (rule exactSum_split)
  have "roundNum pf ?all = Fin ?all"
    using exactFrom_last [of "transactions a" pf 0] assms(1,2) by (simp add: noRounding_def)
  then have "num_add (roundNum pf) (Fin ?d) (Fin ?n) = Fin ?all"
    by (simp add: split)
  moreover have "calculateTotalAmount pf \<lparr>transactions = []\<rparr> = Fin 0"
    by (simp add: calculateTotalAmount_def)
  ultimately show ?thesis
    by (simp only: total debit rest simp_thms)
qed

lemma ref_tenth: "parseFloat refPlatform ''0.1'' = Fin (7205759403792794 / 2 ^ 56)"
  by code_simp

lemma ref_two_tenths: "parseFloat refPlatform ''0.2'' = Fin (7205759403792794 / 2 ^ 55)"
  by code_simp

lemma ref_three_tenths: "parseFloat refPlatform ''0.3'' = Fin (5404319552844595 / 2 ^ 54)"
  by code_simp

lemma ref_add_0_1: "roundNum refPlatform (0 + 7205759403792794 / 2 ^ 56) = Fin (7205759403792794 / 2 ^ 56)"
  by code_simp

lemma ref_add_1_2:
  "roundNum refPlatform (7205759403792794 / 2 ^ 56 + 7205759403792794 / 2 ^ 55) =
     Fin (5404319552844596 / 2 ^ 54)"
  by code_simp

lemma ref_add_12_3:
  "roundNum refPlatform (5404319552844596 / 2 ^ 54 + 5404319552844595 / 2 ^ 54) =
     Fin (5404319552844596 / 2 ^ 53)"
  by code_simp

lemma ref_add_0_2: "roundNum refPlatform (0 + 7205759403792794 / 2 ^ 55) = Fin (7205759403792794 / 2 ^ 55)"
  by code_simp

lemma ref_add_2_3:
  "roundNum refPlatform (7205759403792794 / 2 ^ 55 + 5404319552844595 / 2 ^ 54) = Fin (1 / 2)"
  by code_simp

lemma ref_add_1_23:
  "roundNum refPlatform (7205759403792794 / 2 ^ 56 + 1 / 2) = Fin (5404319552844595 / 2 ^ 53)"
  by code_simp

lemma tenths_total:
  "calculateTotalAmount refPlatform tenths = Fin (5404319552844596 / 2 ^ 53)"
  by (simp only: calculateTotalAmount_def tenths_def analyzer.simps foldl.simps addAmount_def
      mkTransaction_def transaction.simps ref_tenth ref_two_tenths ref_three_tenths
      num_add.simps ref_add_0_1 ref_add_1_2 ref_add_12_3)

lemma tenths_debit:
  "calculateTotalDebitAmount refPlatform tenths = Fin (7205759403792794 / 2 ^ 56)"
proof -
  have "getTransactionByType tenths ''debit'' =
      [mkTransaction ''1'' ''2019-01-15'' ''0.1'' ''debit'']"
    by (simp add: getTransactionByType_def tenths_def mkTransaction_def)
  then show ?thesis
    by (simp only: calculateTotalDebitAmount_def foldl.simps addAmount_def mkTransaction_def
        transaction.simps ref_tenth num_add.simps ref_add_0_1)
qed

lemma tenths_rest: "sumAmounts refPlatform (nonDebit tenths) = Fin (1 / 2)"
proof -
  have "nonDebit tenths =
      [mkTransaction ''2'' ''2019-01-16'' ''0.2'' ''credit'',
       mkTransaction ''3'' ''2019-01-17'' ''0.3'' ''credit'']"
    by (simp add: nonDebit_def tenths_def mkTransaction_def)
  then show ?thesis
    by (simp only: sumAmounts_def foldl.simps addAmount_def mkTransaction_def
        transaction.simps ref_two_tenths ref_three_tenths num_add.simps ref_add_0_2 ref_add_2_3)
qed

text \<open>
  C4 as stated fails, since the addition of Numbers rounds and is not associative: with
  a debit of 0.1 followed by credits of 0.2 and 0.3, the total \<^verbatim>\<open>((0 + 0.1) + 0.2) + 0.3\<close>
  is \<^verbatim>\<open>0.6000000000000001\<close>, while the debit total 0.1 plus the rest
  \<^verbatim>\<open>(0 + 0.2) + 0.3 = 0.5\<close> is \<^verbatim>\<open>0.6\<close>.
\<close>

theorem calculateTotalAmount_debit_plus_rest_counterexample:
  "calculateTotalAmount refPlatform tenths \<noteq>
     num_add (roundNum refPlatform) (calculateTotalDebitAmount refPlatform tenths)
       (sumAmounts refPlatform (nonDebit tenths))"
proof -
  have "num_add (roundNum refPlatform) (calculateTotalDebitAmount refPlatform tenths)
      (sumAmounts refPlatform (nonDebit tenths)) = Fin (5404319552844595 / 2 ^ 53)"
    by (simp only: tenths_debit tenths_rest num_add.simps ref_add_1_23)
  then show ?thesis by (simp add: tenths_total)
qed

theorem calculateTotalAmount_debit_plus_rest_when_exact_witness:
  "transactions twoMonths \<noteq> [] \<and>
   noRounding refPlatform (transactions twoMonths) \<and>
   noRounding refPlatform (getTransactionByType twoMonths ''debit'') \<and>
   noRounding refPlatform (nonDebit twoMonths) \<and>
   calculateTotalAmount refPlatform twoMonths =
     num_add (roundNum refPlatform) (calculateTotalDebitAmount refPlatform twoMonths)
       (sumAmounts refPlatform (nonDebit twoMonths))"
proof -
  have ne: "transactions twoMonths \<noteq> []" by (simp add: twoMonths_def)
  have all: "noRounding refPlatform (transactions twoMonths)"
    by (simp add: noRounding_def twoMonths_def debitJan_def creditFeb_def mkTransaction_def
        ref_amount_100 ref_amount_50 ref_round_100 ref_round_150)
  have debit: "noRounding refPlatform (getTransactionByType twoMonths ''debit'')"
    by (simp add: noRounding_def getTransactionByType_def twoMonths_def debitJan_def
        creditFeb_def mkTransaction_def ref_amount_100 ref_round_100)
  have rest: "noRounding refPlatform (nonDebit twoMonths)"
    by (simp add: noRounding_def nonDebit_def twoMonths_def debitJan_def creditFeb_def
        mkTransaction_def ref_amount_50 ref_round_50)
  from calculateTotalAmount_debit_plus_rest_when_exact [OF ne all debit rest] ne all debit rest
  show ?thesis by simp
qed

end
